theory Spec2Isabelle
  imports
    Complex_Main
    "HOL-Library.Finite_Map"
    "HOL-Library.Sublist"
    "HOL-Library.AList"
    "HOL-Library.Char_ord"
    "HOL-Library.List_Lexorder"
begin

section \<open>Python values\<close>

text \<open>
  The workflow outputs, the expected outputs and the step results are the values that
  \<^verbatim>\<open>json.load\<close> and the output parser produce: \<^verbatim>\<open>None\<close>, booleans, numbers, strings, lists
  and dictionaries with string keys. Python's \<^verbatim>\<open>int\<close> and \<^verbatim>\<open>float\<close> are both read as real
  numbers (so rounding, overflow, infinities and NaN are outside the model), a string is a
  list of characters, and a dictionary is a finite map: Python compares dictionaries without
  regard to insertion order.
\<close>

datatype json =
    JNull
  | JBool bool
  | JNum real
  | JStr string
  | JList "json list"
  | JObj "(string, json) fmap"

type_synonym pydict = "(string, json) fmap"

datatype py_error = TypeError | AttributeError | KeyError | ValidationError

text \<open>\<^verbatim>\<open>bool(x)\<close>: what \<^verbatim>\<open>if x:\<close> tests.\<close>

fun truthy :: "json \<Rightarrow> bool" where
  "truthy JNull = False"
| "truthy (JBool b) = b"
| "truthy (JNum x) = (x \<noteq> 0)"
| "truthy (JStr s) = (s \<noteq> [])"
| "truthy (JList xs) = (xs \<noteq> [])"
| "truthy (JObj m) = (m \<noteq> fmempty)"

text \<open>
  \<^verbatim>\<open>a == b\<close>. A Python \<^verbatim>\<open>bool\<close> is an \<^verbatim>\<open>int\<close>: \<^verbatim>\<open>True == 1\<close> and \<^verbatim>\<open>False == 0\<close>, also inside
  lists and dictionaries. \<open>py_norm\<close> rewrites the booleans to these numbers; two values
  are equal in Python when their normal forms are the same.
\<close>

primrec py_norm :: "json \<Rightarrow> json" where
  "py_norm JNull = JNull"
| "py_norm (JBool b) = JNum (if b then 1 else 0)"
| "py_norm (JNum x) = JNum x"
| "py_norm (JStr s) = JStr s"
| "py_norm (JList xs) = JList (map py_norm xs)"
| "py_norm (JObj m) = JObj (fmmap py_norm m)"

definition py_eq :: "json \<Rightarrow> json \<Rightarrow> bool" where
  "py_eq a b = (py_norm a = py_norm b)"

text \<open>\<^verbatim>\<open>isinstance(x, (int, float))\<close>, which holds of booleans too, and the number it is.\<close>

fun is_number :: "json \<Rightarrow> bool" where
  "is_number (JNum x) = True"
| "is_number (JBool b) = True"
| "is_number v = False"

fun num_val :: "json \<Rightarrow> real" where
  "num_val (JNum x) = x"
| "num_val (JBool b) = (if b then 1 else 0)"
| "num_val v = 0"

text \<open>\<^verbatim>\<open>d.get(k)\<close> and \<^verbatim>\<open>d.get(k, default)\<close>.\<close>

definition dict_get_default :: "pydict \<Rightarrow> string \<Rightarrow> json \<Rightarrow> json" where
  "dict_get_default d k dflt = (case fmlookup d k of None \<Rightarrow> dflt | Some v \<Rightarrow> v)"

definition dict_get :: "pydict \<Rightarrow> string \<Rightarrow> json" where
  "dict_get d k = dict_get_default d k JNull"

text \<open>\<^verbatim>\<open>not expected_output\<close> for an optional dictionary: \<^verbatim>\<open>None\<close> or \<^verbatim>\<open>{}\<close>.\<close>

fun not_dict :: "pydict option \<Rightarrow> bool" where
  "not_dict None = True"
| "not_dict (Some d) = (d = fmempty)"

text \<open>\<^verbatim>\<open>v in t\<close> on strings: \<open>v\<close> occurs in \<open>t\<close> as a contiguous piece.\<close>

fun str_in :: "string \<Rightarrow> string \<Rightarrow> bool" where
  "str_in v [] = (v = [])"
| "str_in v (c # cs) = (prefix v (c # cs) \<or> str_in v cs)"

text \<open>\<^verbatim>\<open>s.lower()\<close>: the letters A to Z become a to z, every other character stays.\<close>

definition lower_char :: "char \<Rightarrow> char" where
  "lower_char c =
     (case map_of (zip ''ABCDEFGHIJKLMNOPQRSTUVWXYZ'' ''abcdefghijklmnopqrstuvwxyz'') c of
        None \<Rightarrow> c
      | Some l \<Rightarrow> l)"

definition str_lower :: "string \<Rightarrow> string" where
  "str_lower s = map lower_char s"

text \<open>
  \<^verbatim>\<open>for x in v\<close>: a list gives its elements, a string its characters, a dictionary its keys
  (here in sorted order: insertion order is not kept, and no result below depends on it);
  \<^verbatim>\<open>None\<close>, booleans and numbers are not iterable.
\<close>

fun py_iter :: "json \<Rightarrow> py_error + json list" where
  "py_iter (JList xs) = Inr xs"
| "py_iter (JStr s) = Inr (map (\<lambda>c. JStr [c]) s)"
| "py_iter (JObj m) = Inr (map JStr (sorted_list_of_fset (fmdom m)))"
| "py_iter v = Inl TypeError"

text \<open>A set element must be hashable: lists and dictionaries are not.\<close>

fun hashable :: "json \<Rightarrow> bool" where
  "hashable (JList xs) = False"
| "hashable (JObj m) = False"
| "hashable v = True"

section \<open>Metrics (\<^verbatim>\<open>src/base/evaluator.py\<close>)\<close>

definition CATEGORIES :: "string list" where
  "CATEGORIES = [''work_requests'', ''work_orders'', ''tasks'']"

subsection \<open>\<^verbatim>\<open>CategoryClassificationMetric.evaluate\<close>\<close>

text \<open>The three \<^verbatim>\<open>if d.get(c): categories.add(c)\<close> statements, in the order of the source.\<close>

definition add_category :: "pydict \<Rightarrow> string \<Rightarrow> string set \<Rightarrow> string set" where
  "add_category d c s = (if truthy (dict_get d c) then insert c s else s)"

definition categories_of :: "pydict \<Rightarrow> string set" where
  "categories_of d =
     add_category d ''tasks'' (add_category d ''work_orders'' (add_category d ''work_requests'' {}))"

definition category_evaluate :: "string \<Rightarrow> pydict \<Rightarrow> pydict option \<Rightarrow> real" where
  "category_evaluate input_text actual_output expected_output =
     (case expected_output of
        None \<Rightarrow> 0
      | Some expected \<Rightarrow>
          if expected = fmempty then 0
          else
            let expected_categories = categories_of expected;
                actual_categories = categories_of actual_output
            in if expected_categories = actual_categories then 1
               else
                 let intersection = expected_categories \<inter> actual_categories;
                     union = expected_categories \<union> actual_categories
                 in if union \<noteq> {} then real (card intersection) / real (card union) else 0)"

subsection \<open>\<^verbatim>\<open>AssetIdentificationMetric.evaluate\<close>\<close>

definition ASSET_MAPPINGS :: "(string \<times> string list) list" where
  "ASSET_MAPPINGS =
     [(''tunnel-001'', [''tunnel washer 1'', ''tunnel 1'', ''tunnel one'']),
      (''tunnel-002'', [''tunnel washer 2'', ''tunnel 2'', ''tunnel two'']),
      (''dryer-012'', [''dryer 12'', ''clm 12'', ''clm dryer 12'']),
      (''dryer-022'', [''dryer 22'', ''incline dryer 22'']),
      (''ironer-004'', [''ironer 4'', ''iron 4'', ''ironer number 4''])]"

text \<open>The inner loop: the first variation found in the text adds the id and breaks.\<close>

fun any_variation :: "string \<Rightarrow> string list \<Rightarrow> bool" where
  "any_variation input_lower [] = False"
| "any_variation input_lower (variation # variations) =
     (if str_in variation input_lower then True else any_variation input_lower variations)"

fun mentioned_assets :: "string \<Rightarrow> (string \<times> string list) list \<Rightarrow> json set \<Rightarrow> json set" where
  "mentioned_assets input_lower [] expected_assets = expected_assets"
| "mentioned_assets input_lower ((asset_id, variations) # rest) expected_assets =
     mentioned_assets input_lower rest
       (if any_variation input_lower variations then insert (JStr asset_id) expected_assets
        else expected_assets)"

text \<open>
  The body of \<^verbatim>\<open>for item in items\<close>: \<^verbatim>\<open>item.get\<close> exists on dictionaries only, and
  \<^verbatim>\<open>set.add\<close> raises on an unhashable value.
\<close>

fun add_asset :: "json \<Rightarrow> json set \<Rightarrow> py_error + json set" where
  "add_asset (JObj item) actual_assets =
     (let asset_id = dict_get item ''asset_id''
      in if truthy asset_id
         then (if hashable asset_id then Inr (insert (py_norm asset_id) actual_assets)
               else Inl TypeError)
         else Inr actual_assets)"
| "add_asset item actual_assets = Inl AttributeError"

fun add_assets :: "json list \<Rightarrow> json set \<Rightarrow> py_error + json set" where
  "add_assets [] actual_assets = Inr actual_assets"
| "add_assets (item # items) actual_assets =
     (case add_asset item actual_assets of
        Inl e \<Rightarrow> Inl e
      | Inr actual_assets' \<Rightarrow> add_assets items actual_assets')"

fun collect_assets :: "string list \<Rightarrow> pydict \<Rightarrow> json set \<Rightarrow> py_error + json set" where
  "collect_assets [] actual_output actual_assets = Inr actual_assets"
| "collect_assets (category # categories) actual_output actual_assets =
     (case py_iter (dict_get_default actual_output category (JList [])) of
        Inl e \<Rightarrow> Inl e
      | Inr items \<Rightarrow>
          (case add_assets items actual_assets of
             Inl e \<Rightarrow> Inl e
           | Inr actual_assets' \<Rightarrow> collect_assets categories actual_output actual_assets'))"

definition asset_evaluate :: "string \<Rightarrow> pydict \<Rightarrow> pydict option \<Rightarrow> py_error + real" where
  "asset_evaluate input_text actual_output expected_output =
     (let input_lower = str_lower input_text;
          expected_assets = mentioned_assets input_lower ASSET_MAPPINGS {}
      in if expected_assets = {} then Inr 1
         else
           (case collect_assets CATEGORIES actual_output {} of
              Inl e \<Rightarrow> Inl e
            | Inr actual_assets \<Rightarrow>
                if expected_assets = actual_assets then Inr 1
                else
                  let intersection = expected_assets \<inter> actual_assets
                  in Inr (real (card intersection) / real (card expected_assets))))"

subsection \<open>\<^verbatim>\<open>DowntimeExtractionMetric.evaluate\<close>\<close>

definition downtime_evaluate :: "string \<Rightarrow> pydict \<Rightarrow> pydict option \<Rightarrow> real" where
  "downtime_evaluate input_text actual_output expected_output =
     (case expected_output of
        None \<Rightarrow> 0
      | Some expected \<Rightarrow>
          if expected = fmempty then 0
          else
            let expected_downtime = dict_get expected ''equipment_downtime'';
                actual_downtime = dict_get actual_output ''equipment_downtime''
            in if py_eq expected_downtime actual_downtime then 1
               else if is_number expected_downtime \<and> is_number actual_downtime
               then
                 (if num_val expected_downtime = 0
                  then (if num_val actual_downtime = 0 then 1 else 0)
                  else
                    let relative_error =
                          \<bar>num_val expected_downtime - num_val actual_downtime\<bar>
                            / num_val expected_downtime
                    in max 0 (1 - relative_error))
               else 0)"

subsection \<open>\<^verbatim>\<open>CompletenessMetric.evaluate\<close>\<close>

definition required_fields :: "string list" where
  "required_fields = [''title'', ''description'', ''status'']"

text \<open>
  \<^verbatim>\<open>field in item and item[field]\<close>. On a dictionary this is the truth of the field's
  value. On a string \<^verbatim>\<open>in\<close> is the substring test and on a list it is membership, and
  where they hold \<^verbatim>\<open>item[field]\<close> raises, the index being a string; \<^verbatim>\<open>None\<close>, booleans
  and numbers support neither.
\<close>

fun field_present :: "string \<Rightarrow> json \<Rightarrow> py_error + bool" where
  "field_present field (JObj item) =
     (case fmlookup item field of None \<Rightarrow> Inr False | Some v \<Rightarrow> Inr (truthy v))"
| "field_present field (JStr s) = (if str_in field s then Inl TypeError else Inr False)"
| "field_present field (JList xs) =
     (if list_ex (\<lambda>x. py_eq x (JStr field)) xs then Inl TypeError else Inr False)"
| "field_present field v = Inl TypeError"

fun count_fields :: "string list \<Rightarrow> json \<Rightarrow> real \<Rightarrow> py_error + real" where
  "count_fields [] item item_score = Inr item_score"
| "count_fields (field # fields) item item_score =
     (case field_present field item of
        Inl e \<Rightarrow> Inl e
      | Inr present \<Rightarrow>
          count_fields fields item (if present then item_score + 1 else item_score))"

text \<open>The loop over the items of one category; the state is \<open>(score, total_items)\<close>.\<close>

fun score_items :: "json list \<Rightarrow> real \<times> nat \<Rightarrow> py_error + real \<times> nat" where
  "score_items [] st = Inr st"
| "score_items (item # items) (score, total_items) =
     (case count_fields required_fields item 0 of
        Inl e \<Rightarrow> Inl e
      | Inr item_score \<Rightarrow>
          score_items items
            (score + item_score / real (length required_fields), total_items + 1))"

fun score_categories :: "string list \<Rightarrow> pydict \<Rightarrow> real \<times> nat \<Rightarrow> py_error + real \<times> nat" where
  "score_categories [] actual_output st = Inr st"
| "score_categories (category # categories) actual_output st =
     (case py_iter (dict_get_default actual_output category (JList [])) of
        Inl e \<Rightarrow> Inl e
      | Inr items \<Rightarrow>
          (case score_items items st of
             Inl e \<Rightarrow> Inl e
           | Inr st' \<Rightarrow> score_categories categories actual_output st'))"

definition completeness_evaluate :: "string \<Rightarrow> pydict \<Rightarrow> pydict option \<Rightarrow> py_error + real" where
  "completeness_evaluate input_text actual_output expected_output =
     (case expected_output of
        None \<Rightarrow> Inr 0
      | Some expected \<Rightarrow>
          if expected = fmempty then Inr 0
          else
            (case score_categories CATEGORIES actual_output (0, 0) of
               Inl e \<Rightarrow> Inl e
             | Inr (score, total_items) \<Rightarrow>
                 Inr (if total_items > 0 then score / real total_items else 0)))"

subsection \<open>\<^verbatim>\<open>SchemaValidityMetric.evaluate\<close>\<close>

text \<open>
  The schema class belongs to the workflow and its validation to the \<^verbatim>\<open>pydantic\<close>
  library, so \<^verbatim>\<open>model_validate\<close> is a parameter: it returns the validated data, or the
  message of the \<^verbatim>\<open>ValidationError\<close> it raises.
\<close>

type_synonym schema = "json \<Rightarrow> string + json"

definition schema_evaluate :: "schema \<Rightarrow> string \<Rightarrow> pydict \<Rightarrow> pydict option \<Rightarrow> real" where
  "schema_evaluate model_validate input_text actual_output expected_output =
     (case model_validate (JObj actual_output) of Inr validated \<Rightarrow> 1 | Inl e \<Rightarrow> 0)"

subsection \<open>\<^verbatim>\<open>EvaluationFramework\<close>\<close>

text \<open>
  A metric is its \<^verbatim>\<open>evaluate\<close> method: it returns a score or raises. The framework keeps
  the metrics in a dictionary keyed by the metric's name, which \<^verbatim>\<open>add_metric\<close> updates:
  a name already present keeps its place and gets the new metric, a new name goes last.
\<close>

type_synonym 'e metric = "string \<Rightarrow> pydict \<Rightarrow> pydict option \<Rightarrow> 'e + real"

definition add_metric :: "string \<times> 'e metric \<Rightarrow> (string \<times> 'e metric) list \<Rightarrow> (string \<times> 'e metric) list" where
  "add_metric named_metric registered = AList.update (fst named_metric) (snd named_metric) registered"

text \<open>
  The loop of \<^verbatim>\<open>evaluate\<close> over \<^verbatim>\<open>self.metrics.items()\<close>: the \<^verbatim>\<open>try\<close> stores the score, the
  \<^verbatim>\<open>except\<close> stores \<^verbatim>\<open>0.0\<close> (and prints the exception).
\<close>

fun evaluate_metrics ::
  "(string \<times> 'e metric) list \<Rightarrow> string \<Rightarrow> pydict \<Rightarrow> pydict option \<Rightarrow> (string \<rightharpoonup> real) \<Rightarrow> (string \<rightharpoonup> real)" where
  "evaluate_metrics [] text actual expected scores = scores"
| "evaluate_metrics ((name, metric) # rest) text actual expected scores =
     evaluate_metrics rest text actual expected
       (case metric text actual expected of
          Inr score \<Rightarrow> scores(name \<mapsto> score)
        | Inl e \<Rightarrow> scores(name \<mapsto> 0))"

definition framework_evaluate ::
  "(string \<times> 'e metric) list \<Rightarrow> string \<Rightarrow> pydict \<Rightarrow> pydict option \<Rightarrow> (string \<rightharpoonup> real)" where
  "framework_evaluate registered text actual expected =
     evaluate_metrics registered text actual expected Map.empty"

section \<open>The step graph (\<^verbatim>\<open>src/base/graph_builder.py\<close>)\<close>

record base_state =
  input_data :: string
  output_data :: json
  errors :: "string list"
  metadata :: pydict
  step_results :: pydict

text \<open>
  The body of the \<^verbatim>\<open>try\<close> of an agent node looks the agent up, builds the prompt and invokes
  the chain of prompt, language model and output parser. All of it is \<^verbatim>\<open>langchain\<close> and
  the model backend, so it is the parameter \<open>chain\<close>: for an agent name and the input text
  it returns the parsed result, or \<^verbatim>\<open>str(e)\<close> of the exception it raises.
\<close>

type_synonym chain = "string \<Rightarrow> string \<Rightarrow> string + json"

definition agent_node :: "chain \<Rightarrow> string \<Rightarrow> base_state \<Rightarrow> base_state" where
  "agent_node chain agent_name state =
     (case chain agent_name (input_data state) of
        Inr result \<Rightarrow>
          state\<lparr>output_data := result,
                step_results := fmupd agent_name result (step_results state)\<rparr>
      | Inl e \<Rightarrow>
          (let error_msg = ''Error in '' @ agent_name @ '': '' @ e
           in state\<lparr>errors := errors state @ [error_msg], output_data := JNull\<rparr>))"

definition validate_output_node :: "schema \<Rightarrow> base_state \<Rightarrow> base_state" where
  "validate_output_node model_validate state =
     (if truthy (output_data state)
      then
        (case model_validate (output_data state) of
           Inr validated \<Rightarrow>
             state\<lparr>step_results :=
               fmupd ''validate_output''
                 (JObj (fmap_of_list [(''valid'', JBool True), (''validated_data'', validated)]))
                 (step_results state)\<rparr>
         | Inl e \<Rightarrow>
             (let error_msg = ''Validation error: '' @ e
              in state\<lparr>errors := errors state @ [error_msg],
                       step_results :=
                         fmupd ''validate_output''
                           (JObj (fmap_of_list [(''valid'', JBool False), (''error'', JStr error_msg)]))
                           (step_results state)\<rparr>))
      else
        state\<lparr>step_results :=
          fmupd ''validate_output''
            (JObj (fmap_of_list
               [(''valid'', JBool False), (''error'', JStr ''No output data to validate'')]))
            (step_results state)\<rparr>)"

text \<open>
  \<^verbatim>\<open>build_graph\<close> drives \<^verbatim>\<open>langgraph\<close>'s \<^verbatim>\<open>StateGraph\<close>: it adds a node per agent and the
  validation node, then translates the edges of the configuration. What the library does
  with these calls is not part of this code, so the state graph is the list of the calls
  made on it, in order. A node is the function it was added with, and \<open>End\<close> is the
  library's \<^verbatim>\<open>END\<close> marker.
\<close>

datatype node = AgentNode string | ValidateNode

datatype target = Node string | End

datatype graph_call =
    AddNode string node
  | SetEntryPoint string
  | AddEdge string target

type_synonym state_graph = "graph_call list"

record graph_config =
  agents :: "string list"
  edges :: "(string \<times> string) list"

definition add_node :: "string \<Rightarrow> node \<Rightarrow> state_graph \<Rightarrow> state_graph" where
  "add_node name f g = g @ [AddNode name f]"

definition set_entry_point :: "string \<Rightarrow> state_graph \<Rightarrow> state_graph" where
  "set_entry_point name g = g @ [SetEntryPoint name]"

definition add_edge :: "string \<Rightarrow> target \<Rightarrow> state_graph \<Rightarrow> state_graph" where
  "add_edge from_node to_node g = g @ [AddEdge from_node to_node]"

fun add_config_edge :: "string \<times> string \<Rightarrow> state_graph \<Rightarrow> state_graph" where
  "add_config_edge (from_node, to_node) g =
     (if from_node = ''START'' then set_entry_point to_node g
      else if to_node = ''END''
      then add_edge ''validate_output'' End (add_edge from_node (Node ''validate_output'') g)
      else add_edge from_node (Node to_node) g)"

definition build_state_graph :: "graph_config \<Rightarrow> state_graph" where
  "build_state_graph config =
     fold add_config_edge (edges config)
       (add_node ''validate_output'' ValidateNode
          (fold (\<lambda>agent_name. add_node agent_name (AgentNode agent_name)) (agents config) []))"

text \<open>
  \<^verbatim>\<open>graph.compile()\<close> and the compiled graph's \<^verbatim>\<open>invoke\<close> are \<^verbatim>\<open>langgraph\<close>'s. The parameter
  \<open>compile\<close> returns the nodes in the order in which the compiled graph runs them, or the
  message of the exception the library raises for a graph it rejects; \<open>graph_invoke\<close> runs
  the node functions in that order, each on the state the previous one returned.
\<close>

type_synonym compile = "state_graph \<Rightarrow> string + node list"

record graph_builder =
  graph :: "node list option"
  builder_config :: graph_config

definition build_graph :: "compile \<Rightarrow> graph_builder \<Rightarrow> string + node list \<times> graph_builder" where
  "build_graph compile builder =
     (case compile (build_state_graph (builder_config builder)) of
        Inl e \<Rightarrow> Inl e
      | Inr compiled \<Rightarrow> Inr (compiled, builder\<lparr>graph := Some compiled\<rparr>))"

fun run_node :: "chain \<Rightarrow> schema \<Rightarrow> node \<Rightarrow> base_state \<Rightarrow> base_state" where
  "run_node chain model_validate (AgentNode agent_name) state = agent_node chain agent_name state"
| "run_node chain model_validate ValidateNode state = validate_output_node model_validate state"

definition graph_invoke :: "chain \<Rightarrow> schema \<Rightarrow> node list \<Rightarrow> base_state \<Rightarrow> base_state" where
  "graph_invoke chain model_validate compiled state =
     fold (run_node chain model_validate) compiled state"

definition initial_state :: "string \<Rightarrow> base_state" where
  "initial_state text =
     \<lparr>input_data = text, output_data = JNull, errors = [], metadata = fmempty,
      step_results = fmempty\<rparr>"

text \<open>
  \<^verbatim>\<open>execute\<close> builds the graph when the builder has none yet and keeps it, so it returns
  the builder too. A failure of \<^verbatim>\<open>build_graph\<close> propagates to the caller.
\<close>

definition execute ::
  "compile \<Rightarrow> chain \<Rightarrow> schema \<Rightarrow> graph_builder \<Rightarrow> string \<Rightarrow> (string + base_state) \<times> graph_builder" where
  "execute compile chain model_validate builder text =
     (case (case graph builder of
              None \<Rightarrow> build_graph compile builder
            | Some compiled \<Rightarrow> Inr (compiled, builder)) of
        Inl e \<Rightarrow> (Inl e, builder)
      | Inr (compiled, builder') \<Rightarrow>
          (Inr (graph_invoke chain model_validate compiled (initial_state text)), builder'))"

section \<open>The evaluation session (\<^verbatim>\<open>src/base/workflow.py\<close>)\<close>

text \<open>
  A dataset is a list of dictionaries, as \<^verbatim>\<open>json.load\<close> returns them: nothing checks the
  items before \<^verbatim>\<open>run_evaluation\<close> gets them. \<^verbatim>\<open>item["input"]\<close> raises \<^verbatim>\<open>KeyError\<close> when the
  key is missing.
\<close>

definition dict_index :: "pydict \<Rightarrow> string \<Rightarrow> py_error + json" where
  "dict_index d k = (case fmlookup d k of None \<Rightarrow> Inl KeyError | Some v \<Rightarrow> Inr v)"

text \<open>
  \<^verbatim>\<open>expected_output\<close> holds whatever \<^verbatim>\<open>item.get("expected_output")\<close> gave, \<^verbatim>\<open>None\<close> when the
  key is missing: assignments to the result are not validated.
\<close>

record evaluation_result =
  input_text :: string
  expected_output :: json
  actual_output :: "pydict option"
  metrics :: "string \<rightharpoonup> real"
  result_errors :: "string list"
  execution_time :: real
  success :: bool

text \<open>
  \<^verbatim>\<open>EvaluationResult(input_text=v)\<close>: the constructor validates the field, which is
  declared a string, and raises \<^verbatim>\<open>ValidationError\<close> for any other value; the other fields
  get their defaults.
\<close>

fun new_result :: "json \<Rightarrow> py_error + evaluation_result" where
  "new_result (JStr text) =
     Inr \<lparr>input_text = text, expected_output = JNull, actual_output = None,
          metrics = Map.empty, result_errors = [], execution_time = 0, success = False\<rparr>"
| "new_result v = Inl ValidationError"

text \<open>
  \<^verbatim>\<open>process_input\<close> and \<^verbatim>\<open>evaluate_output\<close> are abstract methods of the workflow: each
  returns its result, or \<^verbatim>\<open>str(e)\<close> of the exception it raises. \<open>try_item\<close> is the
  \<^verbatim>\<open>try\<close> statement of the loop with its \<^verbatim>\<open>except\<close> branch; inside it \<^verbatim>\<open>item["input"]\<close> is
  the string the result was built from.
\<close>

definition try_item ::
  "(string \<Rightarrow> string + pydict) \<Rightarrow> (string \<Rightarrow> pydict \<Rightarrow> json \<Rightarrow> string + (string \<rightharpoonup> real))
     \<Rightarrow> pydict \<Rightarrow> evaluation_result \<Rightarrow> evaluation_result" where
  "try_item process_input evaluate_output item result =
     (case process_input (input_text result) of
        Inl e \<Rightarrow> result\<lparr>result_errors := result_errors result @ [e], success := False\<rparr>
      | Inr actual \<Rightarrow>
          (let result1 = result\<lparr>actual_output := Some actual\<rparr>;
               expected = dict_get item ''expected_output'';
               result2 = result1\<lparr>expected_output := expected\<rparr>
           in case evaluate_output (input_text result) actual expected of
                Inl e \<Rightarrow> result2\<lparr>result_errors := result_errors result2 @ [e], success := False\<rparr>
              | Inr scores \<Rightarrow> result2\<lparr>metrics := scores, success := True\<rparr>))"

text \<open>
  The loop over the dataset. \<open>clock k\<close> is what the \<open>k\<close>-th call of \<^verbatim>\<open>time.time()\<close>
  returns. The result is built from \<^verbatim>\<open>item["input"]\<close> before the \<^verbatim>\<open>try\<close> is entered, so an
  exception there leaves the loop and \<^verbatim>\<open>run_evaluation\<close>, and the results collected so far
  are not returned.
\<close>

fun run_items ::
  "(string \<Rightarrow> string + pydict) \<Rightarrow> (string \<Rightarrow> pydict \<Rightarrow> json \<Rightarrow> string + (string \<rightharpoonup> real))
     \<Rightarrow> (nat \<Rightarrow> real) \<Rightarrow> nat \<Rightarrow> pydict list \<Rightarrow> evaluation_result list
     \<Rightarrow> py_error + evaluation_result list" where
  "run_items process_input evaluate_output clock k [] results = Inr results"
| "run_items process_input evaluate_output clock k (item # dataset) results =
     (let start_time = clock k
      in case dict_index item ''input'' of
           Inl e \<Rightarrow> Inl e
         | Inr v \<Rightarrow>
             (case new_result v of
                Inl e \<Rightarrow> Inl e
              | Inr result \<Rightarrow>
                  (let result' = try_item process_input evaluate_output item result;
                       result'' = result'\<lparr>execution_time := clock (k + 1) - start_time\<rparr>
                   in run_items process_input evaluate_output clock (k + 2) dataset
                        (results @ [result'']))))"

definition run_evaluation ::
  "(string \<Rightarrow> string + pydict) \<Rightarrow> (string \<Rightarrow> pydict \<Rightarrow> json \<Rightarrow> string + (string \<rightharpoonup> real))
     \<Rightarrow> (nat \<Rightarrow> real) \<Rightarrow> pydict list \<Rightarrow> py_error + evaluation_result list" where
  "run_evaluation process_input evaluate_output clock dataset =
     run_items process_input evaluate_output clock 0 dataset []"

section \<open>Notions used to state the properties\<close>







text \<open>
  A dataset item of the documented shape has a string under \<^verbatim>\<open>"input"\<close>; \<open>input_of\<close> is
  that string.
\<close>

definition has_input :: "pydict \<Rightarrow> bool" where
  "has_input item = (case fmlookup item ''input'' of Some (JStr text) \<Rightarrow> True | _ \<Rightarrow> False)"

definition input_of :: "pydict \<Rightarrow> string" where
  "input_of item = (case fmlookup item ''input'' of Some (JStr text) \<Rightarrow> text | _ \<Rightarrow> [])"

text \<open>
  A workflow whose processing fails on the input \<^verbatim>\<open>bad\<close> and returns an empty output
  otherwise, and whose evaluation returns no scores.
\<close>

definition flaky_process :: "string \<Rightarrow> string + pydict" where
  "flaky_process text = (if text = ''bad'' then Inl ''boom'' else Inr fmempty)"

definition no_scores :: "string \<Rightarrow> pydict \<Rightarrow> json \<Rightarrow> string + (string \<rightharpoonup> real)" where
  "no_scores text actual expected = Inr Map.empty"

text \<open>
  A model backend that fails on every call, and a graph library that runs the nodes in the
  order in which they were added.
\<close>

definition failing_chain :: chain where
  "failing_chain agent_name text = Inl ''connection refused''"

fun added_nodes :: "state_graph \<Rightarrow> node list" where
  "added_nodes [] = []"
| "added_nodes (AddNode name f # calls) = f # added_nodes calls"
| "added_nodes (call # calls) = added_nodes calls"

definition compile_in_order :: compile where
  "compile_in_order g = Inr (added_nodes g)"

definition triage_builder :: graph_builder where
  "triage_builder =
     \<lparr>graph = None,
      builder_config =
        \<lparr>agents = [''extract''], edges = [(''START'', ''extract''), (''extract'', ''END'')]\<rparr>\<rparr>"

definition echo_chain :: chain where
  "echo_chain agent_name text = Inr (JObj (fmupd ''work_summary'' (JStr text) fmempty))"

definition accept_schema :: schema where
  "accept_schema candidate = Inr candidate"

definition no_output_record :: json where
  "no_output_record =
     JObj (fmap_of_list
       [(''valid'', JBool False), (''error'', JStr ''No output data to validate'')])"

section \<open>Facts about the Python operations\<close>

lemma py_eq_numbers: "is_number a \<Longrightarrow> is_number b \<Longrightarrow> py_eq a b = (num_val a = num_val b)"
  by (cases a; cases b) (auto simp: py_eq_def)

lemma dict_get_fmupd: "dict_get (fmupd k v d) k' = (if k = k' then v else dict_get d k')"
  by (simp add: dict_get_def dict_get_default_def)

lemma dict_get_fmempty: "dict_get fmempty k = JNull"
  by (simp add: dict_get_def dict_get_default_def)

section \<open>The downtime metric\<close>

text \<open>
  Claim C3. The downtime metric scores 0 when the expected output is absent (\<^verbatim>\<open>None\<close> or
  empty). Otherwise it compares the \<^verbatim>\<open>equipment_downtime\<close> entries of the expected and the
  actual output, \<^verbatim>\<open>None\<close> standing for a missing entry: equal values (both \<^verbatim>\<open>None\<close> included)
  score 1; two numbers \<open>e\<close> and \<open>a\<close> score \<open>max 0 (1 - \<bar>e - a\<bar> / e)\<close>, except that \<open>e = 0\<close>
  scores 1 if \<open>a = 0\<close> and 0 otherwise; values that differ and are not both numbers score 0.
  Expected 4 with actual 5 scores 0.75, expected 0 with actual 0 scores 1, and expected 0 with
  actual 2 scores 0.
\<close>

theorem downtime_policy:
  "(not_dict expected \<longrightarrow> downtime_evaluate text actual expected = 0)
   \<and> (\<forall>ex. expected = Some ex \<and> ex \<noteq> fmempty \<longrightarrow>
        (py_eq (dict_get ex ''equipment_downtime'') (dict_get actual ''equipment_downtime'')
           \<longrightarrow> downtime_evaluate text actual expected = 1)
      \<and> (is_number (dict_get ex ''equipment_downtime'')
          \<and> is_number (dict_get actual ''equipment_downtime'')
           \<longrightarrow> downtime_evaluate text actual expected =
                (let e = num_val (dict_get ex ''equipment_downtime'');
                     a = num_val (dict_get actual ''equipment_downtime'')
                 in if e = 0 then (if a = 0 then 1 else 0) else max 0 (1 - \<bar>e - a\<bar> / e)))
      \<and> (\<not> py_eq (dict_get ex ''equipment_downtime'') (dict_get actual ''equipment_downtime'')
          \<and> \<not> (is_number (dict_get ex ''equipment_downtime'')
                \<and> is_number (dict_get actual ''equipment_downtime''))
           \<longrightarrow> downtime_evaluate text actual expected = 0))
   \<and> downtime_evaluate text (fmupd ''equipment_downtime'' (JNum 5) fmempty)
        (Some (fmupd ''equipment_downtime'' (JNum 4) fmempty)) = 0.75
   \<and> downtime_evaluate text (fmupd ''equipment_downtime'' (JNum 0) fmempty)
        (Some (fmupd ''equipment_downtime'' (JNum 0) fmempty)) = 1
   \<and> downtime_evaluate text (fmupd ''equipment_downtime'' (JNum 2) fmempty)
        (Some (fmupd ''equipment_downtime'' (JNum 0) fmempty)) = 0"
proof (intro conjI)
  show "not_dict expected \<longrightarrow> downtime_evaluate text actual expected = 0"
    by (cases expected) (simp_all add: downtime_evaluate_def)
  show "\<forall>ex. expected = Some ex \<and> ex \<noteq> fmempty \<longrightarrow>
        (py_eq (dict_get ex ''equipment_downtime'') (dict_get actual ''equipment_downtime'')
           \<longrightarrow> downtime_evaluate text actual expected = 1)
      \<and> (is_number (dict_get ex ''equipment_downtime'')
          \<and> is_number (dict_get actual ''equipment_downtime'')
           \<longrightarrow> downtime_evaluate text actual expected =
                (let e = num_val (dict_get ex ''equipment_downtime'');
                     a = num_val (dict_get actual ''equipment_downtime'')
                 in if e = 0 then (if a = 0 then 1 else 0) else max 0 (1 - \<bar>e - a\<bar> / e)))
      \<and> (\<not> py_eq (dict_get ex ''equipment_downtime'') (dict_get actual ''equipment_downtime'')
          \<and> \<not> (is_number (dict_get ex ''equipment_downtime'')
                \<and> is_number (dict_get actual ''equipment_downtime''))
           \<longrightarrow> downtime_evaluate text actual expected = 0)"
    by (auto simp: downtime_evaluate_def Let_def py_eq_numbers)
qed (simp_all add: downtime_evaluate_def dict_get_fmupd py_eq_def)

theorem downtime_policy_witness:
  "is_number (dict_get (fmupd ''equipment_downtime'' (JNum 8) fmempty) ''equipment_downtime'')
   \<and> is_number (dict_get (fmupd ''equipment_downtime'' (JNum 6) fmempty) ''equipment_downtime'')
   \<and> fmupd ''equipment_downtime'' (JNum 8) fmempty \<noteq> fmempty
   \<and> downtime_evaluate [] (fmupd ''equipment_downtime'' (JNum 6) fmempty)
        (Some (fmupd ''equipment_downtime'' (JNum 8) fmempty)) = 3 / 4"
  using downtime_policy [of "Some (fmupd ''equipment_downtime'' (JNum 8) fmempty)" "[]"
      "fmupd ''equipment_downtime'' (JNum 6) fmempty"]
  by (simp add: dict_get_fmupd)

text \<open>
  Claim C4. Every metric returns a score in the interval from 0 to 1. The downtime metric
  does not: it divides by the expected value and not by its magnitude, so a negative
  expected downtime makes the relative error negative and the score exceeds 1. Expected
  \<open>-4\<close> with actual \<open>-5\<close> scores \<open>5 / 4\<close>.
\<close>

theorem downtime_score_above_one:
  "downtime_evaluate [] (fmupd ''equipment_downtime'' (JNum (- 5)) fmempty)
     (Some (fmupd ''equipment_downtime'' (JNum (- 4)) fmempty)) = 5 / 4
   \<and> \<not> downtime_evaluate [] (fmupd ''equipment_downtime'' (JNum (- 5)) fmempty)
         (Some (fmupd ''equipment_downtime'' (JNum (- 4)) fmempty)) \<le> 1"
  by (simp add: downtime_evaluate_def dict_get_fmupd py_eq_def)

section \<open>The range of the other scores\<close>

text \<open>
  The scores of the category, asset, schema and completeness metrics lie between 0 and 1
  whenever the metric returns, and so does the downtime score when the expected downtime
  is not negative.
\<close>

lemma finite_categories_of: "finite (categories_of d)"
  by (simp add: categories_of_def add_category_def)

lemma category_score_in_unit_interval:
  "0 \<le> category_evaluate t a e \<and> category_evaluate t a e \<le> 1"
proof -
  have "card (categories_of x \<inter> categories_of a) \<le> card (categories_of x \<union> categories_of a)" for x
    by (rule card_mono) (auto simp: finite_categories_of)
  moreover have "0 < card (categories_of x \<union> categories_of a)"
    if "categories_of x \<union> categories_of a \<noteq> {}" for x
    using that by (simp add: card_gt_0_iff finite_categories_of)
  ultimately show ?thesis
    by (cases e) (auto simp: category_evaluate_def Let_def divide_le_eq_1)
qed

lemma finite_mentioned_assets:
  "finite acc \<Longrightarrow> finite (mentioned_assets t ms acc)"
  by (induction t ms acc rule: mentioned_assets.induct) auto

lemma asset_score_in_unit_interval:
  assumes "asset_evaluate t a e = Inr s"
  shows "0 \<le> s \<and> s \<le> 1"
proof -
  let ?E = "mentioned_assets (str_lower t) ASSET_MAPPINGS {}"
  have fin: "finite ?E" by (simp add: finite_mentioned_assets)
  have le: "card (?E \<inter> A) \<le> card ?E" for A
    by (rule card_mono) (auto simp: fin)
  have pos: "?E \<noteq> {} \<Longrightarrow> 0 < card ?E"
    by (simp add: card_gt_0_iff fin)
  from assms le pos show ?thesis
    by (auto simp: asset_evaluate_def Let_def divide_le_eq_1 split: if_splits sum.splits)
qed

lemma schema_score_in_unit_interval:
  "0 \<le> schema_evaluate mv t a e \<and> schema_evaluate mv t a e \<le> 1"
  by (simp add: schema_evaluate_def split: sum.splits)

lemma downtime_score_in_unit_interval:
  assumes "\<And>ex. e = Some ex \<Longrightarrow> 0 \<le> num_val (dict_get ex ''equipment_downtime'')"
  shows "0 \<le> downtime_evaluate t a e \<and> downtime_evaluate t a e \<le> 1"
proof (cases e)
  case None
  then show ?thesis by (simp add: downtime_evaluate_def)
next
  case (Some ex)
  with assms have "0 \<le> num_val (dict_get ex ''equipment_downtime'')" by simp
  then have "0 \<le> \<bar>num_val (dict_get ex ''equipment_downtime'') - y\<bar>
               / num_val (dict_get ex ''equipment_downtime'')" for y
    by simp
  with Some show ?thesis
    by (auto simp: downtime_evaluate_def Let_def)
qed

lemma count_fields_bounds:
  "count_fields fs item x = Inr y \<Longrightarrow> x \<le> y \<and> y \<le> x + real (length fs)"
proof (induction fs arbitrary: x)
  case Nil
  then show ?case by simp
next
  case (Cons f fs)
  then show ?case by (fastforce split: sum.splits if_splits)
qed

lemma score_items_bounds:
  "score_items items (sc, n) = Inr (sc', n') \<Longrightarrow> 0 \<le> sc \<Longrightarrow> sc \<le> real n \<Longrightarrow>
   0 \<le> sc' \<and> sc' \<le> real n'"
proof (induction items arbitrary: sc n)
  case Nil
  then show ?case by simp
next
  case (Cons item items)
  from Cons.prems(1) obtain y where y: "count_fields required_fields item 0 = Inr y"
    and rest: "score_items items (sc + y / real (length required_fields), n + 1) = Inr (sc', n')"
    by (auto split: sum.splits)
  from count_fields_bounds [OF y] have "0 \<le> y" "y \<le> real (length required_fields)" by auto
  moreover have "0 < real (length required_fields)" by (simp add: required_fields_def)
  ultimately have "0 \<le> y / real (length required_fields)" "y / real (length required_fields) \<le> 1"
    by (simp_all add: divide_le_eq_1)
  with Cons.prems have "0 \<le> sc + y / real (length required_fields)"
    "sc + y / real (length required_fields) \<le> real (n + 1)" by simp_all
  from Cons.IH [OF rest this] show ?case .
qed

lemma score_categories_bounds:
  "score_categories cs a st = Inr (sc', n') \<Longrightarrow> 0 \<le> fst st \<Longrightarrow> fst st \<le> real (snd st) \<Longrightarrow>
   0 \<le> sc' \<and> sc' \<le> real n'"
proof (induction cs arbitrary: st)
  case Nil
  then show ?case by auto
next
  case (Cons c cs)
  from Cons.prems(1) obtain items st' where
    it: "score_items items st = Inr st'" and rest: "score_categories cs a st' = Inr (sc', n')"
    by (auto split: sum.splits)
  from score_items_bounds [of items "fst st" "snd st" "fst st'" "snd st'"] it Cons.prems
  have "0 \<le> fst st'" "fst st' \<le> real (snd st')" by simp_all
  from Cons.IH [OF rest this] show ?case .
qed

lemma completeness_score_in_unit_interval:
  assumes "completeness_evaluate t a e = Inr s"
  shows "0 \<le> s \<and> s \<le> 1"
proof (cases "not_dict e")
  case True
  with assms show ?thesis by (cases e) (auto simp: completeness_evaluate_def)
next
  case False
  then obtain ex where e: "e = Some ex" "ex \<noteq> fmempty" by (cases e) auto
  with assms obtain sc n where run: "score_categories CATEGORIES a (0, 0) = Inr (sc, n)"
    and s: "s = (if n > 0 then sc / real n else 0)"
    by (auto simp: completeness_evaluate_def split: sum.splits)
  from score_categories_bounds [OF run] have "0 \<le> sc" "sc \<le> real n" by simp_all
  with s show ?thesis by (auto simp: divide_le_eq_1)
qed

section \<open>The guard on the expected output\<close>

text \<open>
  Claim C10. The category, downtime and completeness metrics return exactly 0 whenever
  the expected output is \<^verbatim>\<open>None\<close> or an empty dictionary, whatever the input text and the
  actual output are, also when the actual output has the same (empty) set of categories.
\<close>

theorem expected_absent_scores_zero:
  "not_dict expected \<Longrightarrow>
     category_evaluate text actual expected = 0
   \<and> downtime_evaluate text actual expected = 0
   \<and> completeness_evaluate text actual expected = Inr 0"
  by (cases expected)
     (simp_all add: category_evaluate_def downtime_evaluate_def completeness_evaluate_def)

theorem expected_absent_scores_zero_witness:
  "not_dict (Some fmempty)
   \<and> categories_of fmempty = categories_of fmempty
   \<and> category_evaluate ''no work'' fmempty (Some fmempty) = 0
   \<and> downtime_evaluate ''no work'' fmempty (Some fmempty) = 0
   \<and> completeness_evaluate ''no work'' fmempty (Some fmempty) = Inr 0
   \<and> not_dict None
   \<and> category_evaluate ''no work'' fmempty None = 0
   \<and> downtime_evaluate ''no work'' fmempty None = 0
   \<and> completeness_evaluate ''no work'' fmempty None = Inr 0"
  using expected_absent_scores_zero [of "Some fmempty" "''no work''" fmempty]
    expected_absent_scores_zero [of None "''no work''" fmempty]
  by simp

section \<open>The category metric\<close>

lemma categories_of_eq: "categories_of d = {c \<in> set CATEGORIES. truthy (dict_get d c)}"
  by (auto simp: categories_of_def add_category_def CATEGORIES_def)

text \<open>
  Claim C5, as stated: the category metric scores 1 whenever the expected and the actual
  output have the same set of non-empty categories. It does not when the expected output is
  an empty dictionary: both sets are empty, so they are equal, and the score is 0.
\<close>

theorem category_equal_sets_score_zero:
  "categories_of fmempty = categories_of fmempty
   \<and> category_evaluate [] fmempty (Some fmempty) = 0
   \<and> category_evaluate [] fmempty (Some fmempty) \<noteq> 1"
  by (simp add: category_evaluate_def)

text \<open>
  Claim C5, amended: when the expected output is present and not empty, the category
  metric takes the categories among \<^verbatim>\<open>work_requests\<close>, \<^verbatim>\<open>work_orders\<close> and \<^verbatim>\<open>tasks\<close> whose
  value counts as true, in the expected and in the actual output; it scores 1 when the two
  sets are equal and their Jaccard index otherwise. The branch for an empty union is never
  taken, since two sets that differ have a non-empty union. Expected categories
  \<open>{work_orders}\<close> with actual categories \<open>{work_orders, tasks}\<close> score \<open>1 / 2\<close>.
\<close>

theorem category_policy:
  assumes "expected = Some ex" and "ex \<noteq> fmempty"
  shows "categories_of ex = {c \<in> set CATEGORIES. truthy (dict_get ex c)}
    \<and> categories_of actual = {c \<in> set CATEGORIES. truthy (dict_get actual c)}
    \<and> category_evaluate text actual expected =
        (if categories_of ex = categories_of actual then 1
         else real (card (categories_of ex \<inter> categories_of actual))
              / real (card (categories_of ex \<union> categories_of actual)))
    \<and> (categories_of ex \<noteq> categories_of actual
         \<longrightarrow> categories_of ex \<union> categories_of actual \<noteq> {})
    \<and> category_evaluate text
         (fmupd ''tasks'' (JList [JObj fmempty])
            (fmupd ''work_orders'' (JList [JObj fmempty]) fmempty))
         (Some (fmupd ''work_orders'' (JList [JObj fmempty]) fmempty)) = 1 / 2"
proof (intro conjI)
  show "category_evaluate text actual expected =
        (if categories_of ex = categories_of actual then 1
         else real (card (categories_of ex \<inter> categories_of actual))
              / real (card (categories_of ex \<union> categories_of actual)))"
    using assms by (auto simp: category_evaluate_def Let_def)
  show "category_evaluate text
         (fmupd ''tasks'' (JList [JObj fmempty])
            (fmupd ''work_orders'' (JList [JObj fmempty]) fmempty))
         (Some (fmupd ''work_orders'' (JList [JObj fmempty]) fmempty)) = 1 / 2"
    by (simp add: category_evaluate_def categories_of_def add_category_def dict_get_fmupd
        dict_get_fmempty Let_def)
qed (auto simp: categories_of_eq)

theorem category_policy_witness:
  "fmupd ''work_orders'' (JList [JObj fmempty]) fmempty \<noteq> fmempty
   \<and> category_evaluate ''fix it'' (fmupd ''work_requests'' (JList [JObj fmempty]) fmempty)
       (Some (fmupd ''work_orders'' (JList [JObj fmempty]) fmempty)) = 0"
  using category_policy [of "Some (fmupd ''work_orders'' (JList [JObj fmempty]) fmempty)"
      "fmupd ''work_orders'' (JList [JObj fmempty]) fmempty"
      "fmupd ''work_requests'' (JList [JObj fmempty]) fmempty" "''fix it''"]
  by (simp add: categories_of_def add_category_def dict_get_fmupd dict_get_fmempty)

section \<open>The asset metric\<close>








lemma str_lower_sublist: "sublist v t \<Longrightarrow> sublist (str_lower v) (str_lower t)"
  unfolding sublist_def str_lower_def by (metis map_append)



section \<open>The evaluation framework\<close>

lemma add_metric_distinct:
  "distinct (map fst registered) \<Longrightarrow> distinct (map fst (add_metric named_metric registered))"
  by (simp add: add_metric_def distinct_update)

lemma evaluate_metrics_other:
  "name \<notin> fst ` set registered \<Longrightarrow>
   evaluate_metrics registered t a e scores name = scores name"
  by (induction registered t a e scores rule: evaluate_metrics.induct)
     (auto split: sum.splits)

lemma evaluate_metrics_entry:
  "distinct (map fst registered) \<Longrightarrow> (name, metric) \<in> set registered \<Longrightarrow>
   evaluate_metrics registered t a e scores name =
     Some (case metric t a e of Inr score \<Rightarrow> score | Inl err \<Rightarrow> 0)"
proof (induction registered t a e scores rule: evaluate_metrics.induct)
  case (1 t a e scores)
  then show ?case by simp
next
  case (2 n m rest t a e scores)
  show ?case
  proof (cases "(name, metric) = (n, m)")
    case True
    with 2 have "name \<notin> fst ` set rest" by auto
    with True show ?thesis by (simp add: evaluate_metrics_other split: sum.splits)
  next
    case False
    with 2 show ?thesis by auto
  qed
qed

lemma evaluate_metrics_dom:
  "dom (evaluate_metrics registered t a e scores) = dom scores \<union> fst ` set registered"
  by (induction registered t a e scores rule: evaluate_metrics.induct)
     (auto split: sum.splits)

text \<open>
  Claim C8. When the \<^verbatim>\<open>evaluate\<close> of one registered metric raises, the framework catches
  the exception, records 0 under that metric's name and goes on: the score map has an
  entry for every registered metric, and every metric that returns a score has that score
  recorded. The framework itself returns the score map and does not raise.
\<close>

theorem metric_failure_scores_zero:
  assumes "distinct (map fst registered)"
    and "(name, metric) \<in> set registered"
    and "metric text actual expected = Inl e"
  shows "framework_evaluate registered text actual expected name = Some 0
    \<and> dom (framework_evaluate registered text actual expected) = fst ` set registered
    \<and> (\<forall>name' metric' score. (name', metric') \<in> set registered
          \<and> metric' text actual expected = Inr score
          \<longrightarrow> framework_evaluate registered text actual expected name' = Some score)"
  using assms
  by (auto simp: framework_evaluate_def evaluate_metrics_entry evaluate_metrics_dom)

theorem metric_failure_scores_zero_witness:
  "distinct (map fst
      (add_metric (''asset_identification_accuracy'', asset_evaluate)
        (add_metric (''completeness_score'', completeness_evaluate) [])))
   \<and> completeness_evaluate ''all fine'' (fmupd ''work_requests'' JNull fmempty)
        (Some (fmupd ''tasks'' (JList []) fmempty)) = Inl TypeError
   \<and> framework_evaluate
        (add_metric (''asset_identification_accuracy'', asset_evaluate)
          (add_metric (''completeness_score'', completeness_evaluate) []))
        ''all fine'' (fmupd ''work_requests'' JNull fmempty)
        (Some (fmupd ''tasks'' (JList []) fmempty)) ''completeness_score'' = Some 0
   \<and> framework_evaluate
        (add_metric (''asset_identification_accuracy'', asset_evaluate)
          (add_metric (''completeness_score'', completeness_evaluate) []))
        ''all fine'' (fmupd ''work_requests'' JNull fmempty)
        (Some (fmupd ''tasks'' (JList []) fmempty)) ''asset_identification_accuracy'' = Some 1"
proof -
  let ?reg = "add_metric (''asset_identification_accuracy'', asset_evaluate)
        (add_metric (''completeness_score'', completeness_evaluate) [])"
  let ?a = "fmupd ''work_requests'' JNull fmempty"
  let ?e = "Some (fmupd ''tasks'' (JList []) fmempty)"
  have d: "distinct (map fst ?reg)" by (simp add: add_metric_def)
  have c: "completeness_evaluate ''all fine'' ?a ?e = Inl TypeError"
    by (simp add: completeness_evaluate_def CATEGORIES_def dict_get_default_def)
  have s: "asset_evaluate ''all fine'' ?a ?e = Inr 1"
    by (simp add: asset_evaluate_def str_lower_def lower_char_def ASSET_MAPPINGS_def)
  have m1: "(''completeness_score'', completeness_evaluate) \<in> set ?reg"
    by (simp add: add_metric_def)
  have m2: "(''asset_identification_accuracy'', asset_evaluate) \<in> set ?reg"
    by (simp add: add_metric_def)
  from metric_failure_scores_zero [OF d m1 c] m2 s d c show ?thesis by blast
qed

section \<open>The evaluation session\<close>

lemma has_input_index:
  "has_input item \<Longrightarrow> dict_index item ''input'' = Inr (JStr (input_of item))"
  by (auto simp: dict_index_def has_input_def input_of_def split: option.splits json.splits)

lemma run_items_ok:
  "list_all has_input ds \<Longrightarrow>
   \<exists>res. run_items p ev clock k ds rs = Inr res
     \<and> length res = length rs + length ds
     \<and> (\<forall>i < length rs. res ! i = rs ! i)
     \<and> (\<forall>i < length ds. \<exists>r. new_result (JStr (input_of (ds ! i))) = Inr r
           \<and> res ! (length rs + i) =
               (try_item p ev (ds ! i) r)
                 \<lparr>execution_time := clock (k + 2 * i + 1) - clock (k + 2 * i)\<rparr>)"
proof (induction ds arbitrary: k rs)
  case Nil
  then show ?case by simp
next
  case (Cons d ds)
  then have d: "has_input d" and ds: "list_all has_input ds" by simp_all
  obtain r0 where r0: "new_result (JStr (input_of d)) = Inr r0" by simp
  let ?r = "(try_item p ev d r0)\<lparr>execution_time := clock (k + 1) - clock k\<rparr>"
  from Cons.IH [OF ds, of "k + 2" "rs @ [?r]"] obtain res where
    run: "run_items p ev clock (k + 2) ds (rs @ [?r]) = Inr res"
    and len: "length res = length (rs @ [?r]) + length ds"
    and old: "\<forall>i < length (rs @ [?r]). res ! i = (rs @ [?r]) ! i"
    and new: "\<forall>i < length ds. \<exists>r. new_result (JStr (input_of (ds ! i))) = Inr r
           \<and> res ! (length (rs @ [?r]) + i) =
               (try_item p ev (ds ! i) r)
                 \<lparr>execution_time := clock (k + 2 + 2 * i + 1) - clock (k + 2 + 2 * i)\<rparr>"
    by blast
  have step: "run_items p ev clock k (d # ds) rs = Inr res"
    using run r0 d by (simp add: has_input_index Let_def)
  have "\<forall>i < length rs. res ! i = rs ! i"
    using old by (auto simp: nth_append)
  moreover have "\<forall>i < length (d # ds). \<exists>r. new_result (JStr (input_of ((d # ds) ! i))) = Inr r
           \<and> res ! (length rs + i) =
               (try_item p ev ((d # ds) ! i) r)
                 \<lparr>execution_time := clock (k + 2 * i + 1) - clock (k + 2 * i)\<rparr>"
  proof (intro allI impI)
    fix i assume i: "i < length (d # ds)"
    show "\<exists>r. new_result (JStr (input_of ((d # ds) ! i))) = Inr r
           \<and> res ! (length rs + i) =
               (try_item p ev ((d # ds) ! i) r)
                 \<lparr>execution_time := clock (k + 2 * i + 1) - clock (k + 2 * i)\<rparr>"
    proof (cases i)
      case 0
      from old have "res ! length rs = ?r" by (auto simp: nth_append)
      with 0 r0 show ?thesis by (simp)
    next
      case (Suc j)
      with i have j: "j < length ds" by simp
      from new j obtain r where
        "new_result (JStr (input_of (ds ! j))) = Inr r"
        "res ! (length (rs @ [?r]) + j) =
               (try_item p ev (ds ! j) r)
                 \<lparr>execution_time := clock (k + 2 + 2 * j + 1) - clock (k + 2 + 2 * j)\<rparr>"
        by blast
      with Suc show ?thesis
        by (simp add: add.commute add.left_commute)
    qed
  qed
  ultimately show ?case using step len by simp
qed

lemma run_items_aborts:
  "\<not> has_input item \<Longrightarrow> \<exists>e. run_items p ev clock k (item # ds) rs = Inl e"
  by (auto simp: dict_index_def has_input_def Let_def split: option.splits json.splits)

text \<open>
  Claim C7, as stated: for every dataset the run never aborts because of one item. It does
  when an item has no \<^verbatim>\<open>"input"\<close> key: \<^verbatim>\<open>item["input"]\<close> is read before the \<^verbatim>\<open>try\<close>, the
  \<^verbatim>\<open>KeyError\<close> leaves \<^verbatim>\<open>run_evaluation\<close>, and the result of the item before it is lost too.
\<close>

theorem run_evaluation_aborts_without_input:
  "run_evaluation flaky_process no_scores real
     [fmupd ''input'' (JStr ''good'') fmempty,
      fmupd ''expected_output'' (JObj fmempty) fmempty] = Inl KeyError"
  by (simp add: run_evaluation_def dict_index_def)

text \<open>
  Claim C7, amended: for every dataset whose items each have a string under \<^verbatim>\<open>"input"\<close>,
  \<^verbatim>\<open>run_evaluation\<close> returns one result per item, in the order of the dataset. Where
  \<^verbatim>\<open>process_input\<close> or \<^verbatim>\<open>evaluate_output\<close> raises, the item's result has \<^verbatim>\<open>success\<close> false,
  the exception's message as its only error and no metrics, and the following items are
  processed all the same; where both return, the result is successful and carries the
  scores. The execution time of every result is the difference of the two clock readings
  around the item, whatever the outcome.
\<close>

theorem run_evaluation_isolates_failures:
  assumes "list_all has_input dataset"
  shows "\<exists>results. run_evaluation process_input evaluate_output clock dataset = Inr results
    \<and> length results = length dataset
    \<and> (\<forall>i < length dataset.
          input_text (results ! i) = input_of (dataset ! i)
        \<and> execution_time (results ! i) = clock (2 * i + 1) - clock (2 * i)
        \<and> (\<forall>e. process_input (input_of (dataset ! i)) = Inl e \<longrightarrow>
              \<not> success (results ! i) \<and> result_errors (results ! i) = [e]
            \<and> metrics (results ! i) = Map.empty)
        \<and> (\<forall>actual e. process_input (input_of (dataset ! i)) = Inr actual
              \<and> evaluate_output (input_of (dataset ! i)) actual
                  (dict_get (dataset ! i) ''expected_output'') = Inl e \<longrightarrow>
              \<not> success (results ! i) \<and> result_errors (results ! i) = [e]
            \<and> metrics (results ! i) = Map.empty)
        \<and> (\<forall>actual scores. process_input (input_of (dataset ! i)) = Inr actual
              \<and> evaluate_output (input_of (dataset ! i)) actual
                  (dict_get (dataset ! i) ''expected_output'') = Inr scores \<longrightarrow>
              success (results ! i) \<and> result_errors (results ! i) = []
            \<and> metrics (results ! i) = scores \<and> actual_output (results ! i) = Some actual))"
proof -
  from run_items_ok [OF assms, of process_input evaluate_output clock 0 "[]"]
  obtain results where
    run: "run_evaluation process_input evaluate_output clock dataset = Inr results"
    and len: "length results = length dataset"
    and nth: "\<forall>i < length dataset. \<exists>r. new_result (JStr (input_of (dataset ! i))) = Inr r
           \<and> results ! i =
               (try_item process_input evaluate_output (dataset ! i) r)
                 \<lparr>execution_time := clock (2 * i + 1) - clock (2 * i)\<rparr>"
    by (auto simp: run_evaluation_def)
  have "input_text (results ! i) = input_of (dataset ! i)
        \<and> execution_time (results ! i) = clock (2 * i + 1) - clock (2 * i)
        \<and> (\<forall>e. process_input (input_of (dataset ! i)) = Inl e \<longrightarrow>
              \<not> success (results ! i) \<and> result_errors (results ! i) = [e]
            \<and> metrics (results ! i) = Map.empty)
        \<and> (\<forall>actual e. process_input (input_of (dataset ! i)) = Inr actual
              \<and> evaluate_output (input_of (dataset ! i)) actual
                  (dict_get (dataset ! i) ''expected_output'') = Inl e \<longrightarrow>
              \<not> success (results ! i) \<and> result_errors (results ! i) = [e]
            \<and> metrics (results ! i) = Map.empty)
        \<and> (\<forall>actual scores. process_input (input_of (dataset ! i)) = Inr actual
              \<and> evaluate_output (input_of (dataset ! i)) actual
                  (dict_get (dataset ! i) ''expected_output'') = Inr scores \<longrightarrow>
              success (results ! i) \<and> result_errors (results ! i) = []
            \<and> metrics (results ! i) = scores \<and> actual_output (results ! i) = Some actual)"
    if "i < length dataset" for i
  proof -
    from nth that have "results ! i =
        (try_item process_input evaluate_output (dataset ! i)
           \<lparr>input_text = input_of (dataset ! i), expected_output = JNull, actual_output = None,
            metrics = Map.empty, result_errors = [], execution_time = 0, success = False\<rparr>)
          \<lparr>execution_time := clock (2 * i + 1) - clock (2 * i)\<rparr>"
      by auto
    then show ?thesis
      by (simp add: try_item_def Let_def split: sum.splits)
  qed
  with run len show ?thesis by blast
qed

theorem run_evaluation_isolates_failures_witness:
  "list_all has_input
     [fmupd ''input'' (JStr ''bad'') fmempty, fmupd ''input'' (JStr ''good'') fmempty]
   \<and> (\<exists>results.
        run_evaluation flaky_process no_scores real
          [fmupd ''input'' (JStr ''bad'') fmempty, fmupd ''input'' (JStr ''good'') fmempty]
          = Inr results
      \<and> length results = 2
      \<and> \<not> success (results ! 0) \<and> result_errors (results ! 0) = [''boom'']
      \<and> metrics (results ! 0) = Map.empty
      \<and> success (results ! 1) \<and> input_text (results ! 1) = ''good''
      \<and> execution_time (results ! 1) = 1)"
proof -
  let ?ds = "[fmupd ''input'' (JStr ''bad'') fmempty, fmupd ''input'' (JStr ''good'') fmempty]"
  have ok: "list_all has_input ?ds" by (simp add: has_input_def)
  from run_evaluation_isolates_failures [OF ok, of flaky_process no_scores real]
  obtain results where
    run: "run_evaluation flaky_process no_scores real ?ds = Inr results"
    and len: "length results = length ?ds"
    and all: "\<forall>i < length ?ds.
          input_text (results ! i) = input_of (?ds ! i)
        \<and> execution_time (results ! i) = real (2 * i + 1) - real (2 * i)
        \<and> (\<forall>e. flaky_process (input_of (?ds ! i)) = Inl e \<longrightarrow>
              \<not> success (results ! i) \<and> result_errors (results ! i) = [e]
            \<and> metrics (results ! i) = Map.empty)
        \<and> (\<forall>actual e. flaky_process (input_of (?ds ! i)) = Inr actual
              \<and> no_scores (input_of (?ds ! i)) actual
                  (dict_get (?ds ! i) ''expected_output'') = Inl e \<longrightarrow>
              \<not> success (results ! i) \<and> result_errors (results ! i) = [e]
            \<and> metrics (results ! i) = Map.empty)
        \<and> (\<forall>actual scores. flaky_process (input_of (?ds ! i)) = Inr actual
              \<and> no_scores (input_of (?ds ! i)) actual
                  (dict_get (?ds ! i) ''expected_output'') = Inr scores \<longrightarrow>
              success (results ! i) \<and> result_errors (results ! i) = []
            \<and> metrics (results ! i) = scores \<and> actual_output (results ! i) = Some actual)"
    by blast
  from all have i0: "\<not> success (results ! 0) \<and> result_errors (results ! 0) = [''boom'']
      \<and> metrics (results ! 0) = Map.empty"
    by (elim allE [of _ 0]) (simp add: input_of_def flaky_process_def)
  from all have i1: "success (results ! 1) \<and> input_text (results ! 1) = ''good''
      \<and> execution_time (results ! 1) = 1"
    by (elim allE [of _ 1]) (simp add: input_of_def flaky_process_def no_scores_def)
  from ok run len i0 i1 show ?thesis by simp
qed

section \<open>The step graph\<close>

lemma run_node_input: "input_data (run_node chain mv n s) = input_data s"
  by (cases n) (auto simp: agent_node_def validate_output_node_def Let_def split: sum.splits)

lemma graph_invoke_Cons:
  "graph_invoke chain mv (n # g) s = graph_invoke chain mv g (run_node chain mv n s)"
  by (simp add: graph_invoke_def)

lemma graph_invoke_input: "input_data (graph_invoke chain mv g s) = input_data s"
  by (induction g arbitrary: s) (simp_all add: graph_invoke_def run_node_input)

lemma run_node_keeps_result:
  assumes "chain b (input_data s) = Inr r" and "b \<noteq> ''validate_output''"
    and "fmlookup (step_results s) b = Some r"
  shows "fmlookup (step_results (run_node chain mv n s)) b = Some r"
  using assms
  by (cases n) (auto simp: agent_node_def validate_output_node_def Let_def split: sum.splits)

lemma graph_invoke_keeps_result:
  assumes "chain b (input_data s) = Inr r" and "b \<noteq> ''validate_output''"
    and "fmlookup (step_results s) b = Some r"
  shows "fmlookup (step_results (graph_invoke chain mv g s)) b = Some r"
  using assms
proof (induction g arbitrary: s)
  case Nil
  then show ?case by (simp add: graph_invoke_def)
next
  case (Cons n g)
  then show ?case
    by (simp add: graph_invoke_Cons run_node_input run_node_keeps_result)
qed

lemma graph_invoke_records_result:
  assumes "chain b (input_data s) = Inr r" and "b \<noteq> ''validate_output''"
    and "AgentNode b \<in> set g"
  shows "fmlookup (step_results (graph_invoke chain mv g s)) b = Some r"
  using assms
proof (induction g arbitrary: s)
  case Nil
  then show ?case by simp
next
  case (Cons n g)
  show ?case
  proof (cases "n = AgentNode b")
    case True
    have "fmlookup (step_results (run_node chain mv n s)) b = Some r"
      using True Cons.prems(1) by (simp add: agent_node_def)
    with Cons.prems show ?thesis
      by (simp add: graph_invoke_Cons graph_invoke_keeps_result run_node_input)
  next
    case False
    with Cons show ?thesis by (simp add: graph_invoke_Cons run_node_input)
  qed
qed

text \<open>
  Claim C1, as stated: after a step whose model-backend call fails, \<^verbatim>\<open>step_results\<close> has
  an entry for that step. It has none: on a fresh run-state the failing step \<^verbatim>\<open>extract\<close>
  leaves \<^verbatim>\<open>step_results\<close> without an entry under its name.
\<close>

theorem failing_step_no_entry:
  "failing_chain ''extract'' (input_data (initial_state ''pump 3 is down'')) =
      Inl ''connection refused''
   \<and> fmlookup (step_results (agent_node failing_chain ''extract''
        (initial_state ''pump 3 is down''))) ''extract'' = None"
  by (simp add: failing_chain_def agent_node_def initial_state_def)

text \<open>
  Claim C1, amended: a step whose model-backend call fails leaves \<^verbatim>\<open>step_results\<close> as it
  was (it adds no entry for the step), sets the output to \<^verbatim>\<open>None\<close> and appends exactly one
  error, \<^verbatim>\<open>Error in {step}: {message}\<close>. The run goes on with the nodes after it: every later
  agent step whose call succeeds has its result in the final \<^verbatim>\<open>step_results\<close>, and a
  validation node that follows directly sees no output and records that there is no output
  data to validate.
\<close>

theorem failing_step_is_recorded:
  assumes "chain agent_name (input_data state) = Inl e"
  shows "step_results (agent_node chain agent_name state) = step_results state
    \<and> output_data (agent_node chain agent_name state) = JNull
    \<and> errors (agent_node chain agent_name state)
        = errors state @ [''Error in '' @ agent_name @ '': '' @ e]
    \<and> graph_invoke chain model_validate (AgentNode agent_name # rest) state
        = graph_invoke chain model_validate rest (agent_node chain agent_name state)
    \<and> (\<forall>b r. AgentNode b \<in> set rest \<and> b \<noteq> ''validate_output''
          \<and> chain b (input_data state) = Inr r \<longrightarrow>
          fmlookup (step_results
            (graph_invoke chain model_validate (AgentNode agent_name # rest) state)) b = Some r)
    \<and> fmlookup (step_results
          (graph_invoke chain model_validate [AgentNode agent_name, ValidateNode] state))
          ''validate_output'' = Some no_output_record"
proof (intro conjI allI impI)
  fix b r
  assume h: "AgentNode b \<in> set rest \<and> b \<noteq> ''validate_output''
          \<and> chain b (input_data state) = Inr r"
  then have "chain b (input_data (agent_node chain agent_name state)) = Inr r"
    using run_node_input [of chain model_validate "AgentNode agent_name" state] by simp
  with h show "fmlookup (step_results
            (graph_invoke chain model_validate (AgentNode agent_name # rest) state)) b = Some r"
    by (simp add: graph_invoke_Cons graph_invoke_records_result)
qed (use assms in \<open>simp_all add: agent_node_def graph_invoke_def validate_output_node_def
      no_output_record_def\<close>)

theorem failing_step_is_recorded_witness:
  "failing_chain ''extract'' (input_data (initial_state ''pump 3 is down'')) =
      Inl ''connection refused''
   \<and> errors (agent_node failing_chain ''extract'' (initial_state ''pump 3 is down''))
       = [''Error in extract: connection refused'']
   \<and> output_data (agent_node failing_chain ''extract'' (initial_state ''pump 3 is down''))
       = JNull
   \<and> step_results (agent_node failing_chain ''extract'' (initial_state ''pump 3 is down''))
       = fmempty"
proof -
  have f: "failing_chain ''extract'' (input_data (initial_state ''pump 3 is down'')) =
      Inl ''connection refused''"
    by (simp add: failing_chain_def)
  from failing_step_is_recorded [of failing_chain "''extract''"
      "initial_state ''pump 3 is down''" "''connection refused''" accept_schema "[]"] f
  show ?thesis
    by (simp add: initial_state_def)
qed

text \<open>
  Claim C9. Executing a graph twice on the same input text, with the same chain and the
  same schema, gives the same result both times: the same final run-state (output, step
  results, errors and metadata), or the same failure to build the graph. The second
  execution starts from the builder the first one left, which holds the compiled graph.
\<close>

theorem execute_repeatable:
  "fst (execute compile chain model_validate
          (snd (execute compile chain model_validate builder text)) text)
     = fst (execute compile chain model_validate builder text)
   \<and> snd (execute compile chain model_validate
          (snd (execute compile chain model_validate builder text)) text)
     = snd (execute compile chain model_validate builder text)"
  by (cases "graph builder"; cases "compile (build_state_graph (builder_config builder))")
     (simp_all add: execute_def build_graph_def)

theorem execute_repeatable_witness:
  "fst (execute compile_in_order echo_chain accept_schema
          (snd (execute compile_in_order echo_chain accept_schema triage_builder ''belt replaced''))
          ''belt replaced'')
     = Inr (graph_invoke echo_chain accept_schema [AgentNode ''extract'', ValidateNode]
              (initial_state ''belt replaced''))"
proof -
  have "fst (execute compile_in_order echo_chain accept_schema triage_builder ''belt replaced'')
     = Inr (graph_invoke echo_chain accept_schema [AgentNode ''extract'', ValidateNode]
              (initial_state ''belt replaced''))"
    by (simp add: execute_def build_graph_def triage_builder_def build_state_graph_def
        compile_in_order_def add_node_def add_edge_def set_entry_point_def)
  with execute_repeatable [of compile_in_order echo_chain accept_schema triage_builder
      "''belt replaced''"]
  show ?thesis by simp
qed

end
